theory Spec2Isabelle
  imports Main "HOL-Library.Sublist" "HOL-Library.Word"
begin

section \<open>Data model of \<open>phone_agent/adb/screenshot.py\<close>\<close>

text \<open>
  Python \<open>bytes\<close> are lists of 8-bit words, Python \<open>str\<close> values are \<open>string\<close>s.
  \<open>x in s\<close> on strings is \<^const>\<open>sublist\<close> (a contiguous run), and
  \<open>b.startswith(p)\<close> is \<^const>\<open>prefix\<close>.
\<close>

type_synonym bytes = "8 word list"

text \<open>
  An exception value. \<open>Exn m\<close> is an instance of Python's \<open>Exception\<close> whose \<open>str\<close> is
  \<open>m\<close>; \<open>BaseExn m\<close> is a \<open>BaseException\<close> that is not an \<open>Exception\<close>
  (\<open>KeyboardInterrupt\<close>, \<open>SystemExit\<close>), which no \<open>except Exception\<close> clause catches.
\<close>

datatype exn = Exn string | BaseExn string

fun str :: "exn \<Rightarrow> string" where
  "str (Exn m) = m"
| "str (BaseExn m) = m"

record Screenshot =
  base64_data :: string
  width :: int
  height :: int
  is_sensitive :: bool

text \<open>
  What \<open>subprocess.run(..., capture_output=True)\<close> returns. The source guards both fields
  with a truth test (\<open>result.stdout or b""\<close>, \<open>if result.stderr\<close>), so each may be \<open>None\<close>.
\<close>

record CompletedProcess =
  stdout :: "bytes option"
  stderr :: "bytes option"

type_synonym rgb = "nat \<times> nat \<times> nat"

record image =
  img_size :: "int \<times> int"
  pixel :: "int \<Rightarrow> int \<Rightarrow> rgb"

text \<open>\<open>Image.new("RGB", size, color)\<close>: every pixel has the given colour.\<close>

definition Image_new :: "int \<times> int \<Rightarrow> rgb \<Rightarrow> image" where
  "Image_new sz c = \<lparr>img_size = sz, pixel = (\<lambda>x y. c)\<rparr>"

definition black :: rgb where
  "black = (0, 0, 0)"

text \<open>
  The library collaborators, as parameters of the model.
  \<^item> \<open>subprocess_run n argv timeout\<close> is the outcome of the \<open>n\<close>-th process invocation
    made so far in this world: it raises or returns a completed process.
  \<^item> \<open>decode_ignore\<close> is \<open>bytes.decode("utf-8", errors="ignore")\<close>, which is total on
    bytes; so the handler of lines 68-69 is never entered.
  \<^item> \<open>Image_open\<close> is \<open>Image.open(BytesIO(b))\<close>, which raises on bytes it cannot identify.
  \<^item> \<open>Image_save_png\<close> is \<open>img.save(buffered, format="PNG")\<close> followed by
    \<open>buffered.getvalue()\<close>.
  \<^item> \<open>b64encode\<close> is \<open>base64.b64encode(b).decode("utf-8")\<close>.
  In this first model the process invocation and the image decoder, which depend on the
  device, may raise, and the text decoder and the encoders are total functions. The
  second model below lets every library call raise; the two agree when none does.
\<close>

record env =
  subprocess_run :: "nat \<Rightarrow> string list \<Rightarrow> int \<Rightarrow> exn + CompletedProcess"
  decode_ignore :: "bytes \<Rightarrow> string"
  Image_open :: "bytes \<Rightarrow> exn + image"
  Image_save_png :: "image \<Rightarrow> bytes"
  b64encode :: "bytes \<Rightarrow> string"

text \<open>
  The effects of a call: the processes spawned so far (argument list and timeout of each)
  and the lines printed so far.
\<close>

record world =
  spawned :: "(string list \<times> int) list"
  printed :: "string list"

definition run :: "env \<Rightarrow> string list \<Rightarrow> int \<Rightarrow> world \<Rightarrow> (exn + CompletedProcess) \<times> world" where
  "run E argv timeout w =
     (subprocess_run E (length (spawned w)) argv timeout,
      w\<lparr>spawned := spawned w @ [(argv, timeout)]\<rparr>)"

definition print :: "string \<Rightarrow> world \<Rightarrow> world" where
  "print line w = w\<lparr>printed := printed w @ [line]\<rparr>"

section \<open>The operations\<close>

text \<open>\<open>b"\x89PNG\r\n\x1a\n"\<close>\<close>

definition PNG_MAGIC :: bytes where
  "PNG_MAGIC = [0x89, 0x50, 0x4E, 0x47, 0x0D, 0x0A, 0x1A, 0x0A]"

text \<open>\<open>_get_adb_prefix\<close>: \<open>if device_id\<close> is false for \<open>None\<close> and for the empty string.\<close>

definition get_adb_prefix :: "string option \<Rightarrow> string list" where
  "get_adb_prefix device_id =
     (case device_id of
        None \<Rightarrow> [''adb'']
      | Some d \<Rightarrow> if d \<noteq> [] then [''adb'', ''-s'', d] else [''adb''])"

text \<open>\<open>_create_fallback_screenshot\<close>\<close>

definition create_fallback_screenshot :: "env \<Rightarrow> bool \<Rightarrow> Screenshot" where
  "create_fallback_screenshot E sensitive =
     (let default_width = 1080;
          default_height = 2400;
          black_img = Image_new (default_width, default_height) black;
          buffered = Image_save_png E black_img;
          b64 = b64encode E buffered
      in \<lparr>base64_data = b64, width = default_width, height = default_height,
          is_sensitive = sensitive\<rparr>)"

text \<open>Lines 53-56: the two values read off a completed process.\<close>

definition stdout_bytes :: "CompletedProcess \<Rightarrow> bytes" where
  "stdout_bytes result = (case stdout result of None \<Rightarrow> [] | Some b \<Rightarrow> b)"

definition stderr_text :: "env \<Rightarrow> CompletedProcess \<Rightarrow> string" where
  "stderr_text E result =
     (case stderr result of
        None \<Rightarrow> []
      | Some b \<Rightarrow> if b \<noteq> [] then decode_ignore E b else [])"

text \<open>
  One iteration of the loop of lines 42-84. It returns from the function, goes on to the
  next iteration with the error it recorded in \<open>last_error\<close>, or raises out of the loop.
\<close>

datatype step = Return Screenshot | Continue exn | Throw exn

definition attempt :: "env \<Rightarrow> string list \<Rightarrow> int \<Rightarrow> world \<Rightarrow> step \<times> world" where
  "attempt E adb_prefix timeout w =
     (case run E (adb_prefix @ [''exec-out'', ''screencap'', ''-p'']) timeout w of
        (Inl (Exn m), w1) \<Rightarrow> (Continue (Exn m), w1)
      | (Inl (BaseExn m), w1) \<Rightarrow> (Throw (BaseExn m), w1)
      | (Inr result, w1) \<Rightarrow>
          (let out = stdout_bytes result;
               err = stderr_text E result
           in if out = [] then
                (if sublist ''Status: -1'' err \<or> sublist ''Failed'' err
                 then (Return (create_fallback_screenshot E True), w1)
                 else (Continue (Exn ''empty screenshot output''), w1))
              else if \<not> prefix PNG_MAGIC out then
                (let combined_text = err @ decode_ignore E out
                 in if sublist ''Status: -1'' combined_text \<or> sublist ''Failed'' combined_text
                    then (Return (create_fallback_screenshot E True), w1)
                    else (Continue (Exn ''screenshot output is not PNG''), w1))
              else
                (case Image_open E out of
                   Inl e \<Rightarrow> (Throw e, w1)
                 | Inr img \<Rightarrow>
                     (Return \<lparr>base64_data = b64encode E out,
                              width = fst (img_size img),
                              height = snd (img_size img),
                              is_sensitive = False\<rparr>, w1))))"

text \<open>
  The loop \<open>for _ in range(2)\<close>, with the number of iterations left and the
  \<open>last_error\<close> slot as arguments.
\<close>

datatype loop_result = Returned Screenshot | Raised exn | Exhausted "exn option"

fun attempts :: "env \<Rightarrow> string list \<Rightarrow> int \<Rightarrow> nat \<Rightarrow> exn option \<Rightarrow> world \<Rightarrow> loop_result \<times> world" where
  "attempts E adb_prefix timeout 0 last_error w = (Exhausted last_error, w)"
| "attempts E adb_prefix timeout (Suc n) last_error w =
     (case attempt E adb_prefix timeout w of
        (Return s, w1) \<Rightarrow> (Returned s, w1)
      | (Throw e, w1) \<Rightarrow> (Raised e, w1)
      | (Continue e, w1) \<Rightarrow> attempts E adb_prefix timeout n (Some e) w1)"

text \<open>The body of the outer \<open>try\<close> (lines 40-89).\<close>

definition try_body :: "env \<Rightarrow> string list \<Rightarrow> int \<Rightarrow> world \<Rightarrow> (exn + Screenshot) \<times> world" where
  "try_body E adb_prefix timeout w =
     (case attempts E adb_prefix timeout 2 None w of
        (Returned s, w1) \<Rightarrow> (Inr s, w1)
      | (Raised e, w1) \<Rightarrow> (Inl e, w1)
      | (Exhausted (Some e), w1) \<Rightarrow>
          (Inl e, print (''Screenshot warn: exec-out failed after retry: '' @ str e) w1)
      | (Exhausted None, w1) \<Rightarrow> (Inr (create_fallback_screenshot E False), w1))"

text \<open>
  \<open>get_screenshot\<close>: the outer handler \<open>except Exception\<close> turns an \<open>Exception\<close> into the
  fallback; any other exception leaves the function.
\<close>

definition get_screenshot :: "env \<Rightarrow> string option \<Rightarrow> int \<Rightarrow> world \<Rightarrow> (exn + Screenshot) \<times> world" where
  "get_screenshot E device_id timeout w =
     (let adb_prefix = get_adb_prefix device_id
      in case try_body E adb_prefix timeout w of
           (Inr s, w1) \<Rightarrow> (Inr s, w1)
         | (Inl (Exn m), w1) \<Rightarrow>
             (Inr (create_fallback_screenshot E False), print (''Screenshot error: '' @ m) w1)
         | (Inl (BaseExn m), w1) \<Rightarrow> (Inl (BaseExn m), w1))"

section \<open>The operations when every library call may raise\<close>

text \<open>
  The same program once more, now with each library call allowed to raise: also the
  text decoder, \<open>Image.new\<close>, the PNG encoder and the base64 encoder. Here the handler of
  lines 68-69 is live, and \<open>_create_fallback_screenshot\<close> can fail; lines 60, 71 and 89
  call it inside the outer \<open>try\<close>, line 93 calls it inside the handler, where nothing
  catches what it raises.
\<close>

record xenv =
  x_subprocess_run :: "nat \<Rightarrow> string list \<Rightarrow> int \<Rightarrow> exn + CompletedProcess"
  x_decode_ignore :: "bytes \<Rightarrow> exn + string"
  x_Image_open :: "bytes \<Rightarrow> exn + image"
  x_Image_new :: "int \<times> int \<Rightarrow> rgb \<Rightarrow> exn + image"
  x_Image_save_png :: "image \<Rightarrow> exn + bytes"
  x_b64encode :: "bytes \<Rightarrow> exn + string"

definition run_x :: "xenv \<Rightarrow> string list \<Rightarrow> int \<Rightarrow> world \<Rightarrow> (exn + CompletedProcess) \<times> world" where
  "run_x X argv timeout w =
     (x_subprocess_run X (length (spawned w)) argv timeout,
      w\<lparr>spawned := spawned w @ [(argv, timeout)]\<rparr>)"

definition create_fallback_screenshot_x :: "xenv \<Rightarrow> bool \<Rightarrow> exn + Screenshot" where
  "create_fallback_screenshot_x X sensitive =
     (let default_width = 1080;
          default_height = 2400
      in case x_Image_new X (default_width, default_height) black of
           Inl e \<Rightarrow> Inl e
         | Inr black_img \<Rightarrow>
             (case x_Image_save_png X black_img of
                Inl e \<Rightarrow> Inl e
              | Inr buffered \<Rightarrow>
                  (case x_b64encode X buffered of
                     Inl e \<Rightarrow> Inl e
                   | Inr b64 \<Rightarrow>
                       Inr \<lparr>base64_data = b64, width = default_width,
                            height = default_height, is_sensitive = sensitive\<rparr>)))"

text \<open>Line 56, which no inner handler guards.\<close>

definition stderr_text_x :: "xenv \<Rightarrow> CompletedProcess \<Rightarrow> exn + string" where
  "stderr_text_x X result =
     (case stderr result of
        None \<Rightarrow> Inr []
      | Some b \<Rightarrow> if b \<noteq> [] then x_decode_ignore X b else Inr [])"

text \<open>
  Lines 65-69: an \<open>Exception\<close> from the decoder leaves \<open>combined_text\<close> as the stderr
  text; anything else leaves the function.
\<close>

definition combined_text_x :: "xenv \<Rightarrow> string \<Rightarrow> bytes \<Rightarrow> exn + string" where
  "combined_text_x X err out =
     (case x_decode_ignore X out of
        Inr txt \<Rightarrow> Inr (err @ txt)
      | Inl e \<Rightarrow> (case e of Exn m \<Rightarrow> Inr err | BaseExn m \<Rightarrow> Inl (BaseExn m)))"

text \<open>\<open>return _create_fallback_screenshot(is_sensitive=True)\<close> inside the loop.\<close>

definition return_fallback_x :: "xenv \<Rightarrow> world \<Rightarrow> step \<times> world" where
  "return_fallback_x X w1 =
     (case create_fallback_screenshot_x X True of
        Inl e \<Rightarrow> (Throw e, w1)
      | Inr s \<Rightarrow> (Return s, w1))"

definition attempt_x :: "xenv \<Rightarrow> string list \<Rightarrow> int \<Rightarrow> world \<Rightarrow> step \<times> world" where
  "attempt_x X adb_prefix timeout w =
     (case run_x X (adb_prefix @ [''exec-out'', ''screencap'', ''-p'']) timeout w of
        (Inl (Exn m), w1) \<Rightarrow> (Continue (Exn m), w1)
      | (Inl (BaseExn m), w1) \<Rightarrow> (Throw (BaseExn m), w1)
      | (Inr result, w1) \<Rightarrow>
          (let out = stdout_bytes result
           in case stderr_text_x X result of
                Inl e \<Rightarrow> (Throw e, w1)
              | Inr err \<Rightarrow>
                  if out = [] then
                    (if sublist ''Status: -1'' err \<or> sublist ''Failed'' err
                     then return_fallback_x X w1
                     else (Continue (Exn ''empty screenshot output''), w1))
                  else if \<not> prefix PNG_MAGIC out then
                    (case combined_text_x X err out of
                       Inl e \<Rightarrow> (Throw e, w1)
                     | Inr combined_text \<Rightarrow>
                         if sublist ''Status: -1'' combined_text
                            \<or> sublist ''Failed'' combined_text
                         then return_fallback_x X w1
                         else (Continue (Exn ''screenshot output is not PNG''), w1))
                  else
                    (case x_Image_open X out of
                       Inl e \<Rightarrow> (Throw e, w1)
                     | Inr img \<Rightarrow>
                         (case x_b64encode X out of
                            Inl e \<Rightarrow> (Throw e, w1)
                          | Inr b64 \<Rightarrow>
                              (Return \<lparr>base64_data = b64,
                                       width = fst (img_size img),
                                       height = snd (img_size img),
                                       is_sensitive = False\<rparr>, w1)))))"

fun attempts_x :: "xenv \<Rightarrow> string list \<Rightarrow> int \<Rightarrow> nat \<Rightarrow> exn option \<Rightarrow> world \<Rightarrow> loop_result \<times> world" where
  "attempts_x X adb_prefix timeout 0 last_error w = (Exhausted last_error, w)"
| "attempts_x X adb_prefix timeout (Suc n) last_error w =
     (case attempt_x X adb_prefix timeout w of
        (Return s, w1) \<Rightarrow> (Returned s, w1)
      | (Throw e, w1) \<Rightarrow> (Raised e, w1)
      | (Continue e, w1) \<Rightarrow> attempts_x X adb_prefix timeout n (Some e) w1)"

definition try_body_x :: "xenv \<Rightarrow> string list \<Rightarrow> int \<Rightarrow> world \<Rightarrow> (exn + Screenshot) \<times> world" where
  "try_body_x X adb_prefix timeout w =
     (case attempts_x X adb_prefix timeout 2 None w of
        (Returned s, w1) \<Rightarrow> (Inr s, w1)
      | (Raised e, w1) \<Rightarrow> (Inl e, w1)
      | (Exhausted (Some e), w1) \<Rightarrow>
          (Inl e, print (''Screenshot warn: exec-out failed after retry: '' @ str e) w1)
      | (Exhausted None, w1) \<Rightarrow> (create_fallback_screenshot_x X False, w1))"

definition get_screenshot_x :: "xenv \<Rightarrow> string option \<Rightarrow> int \<Rightarrow> world \<Rightarrow> (exn + Screenshot) \<times> world" where
  "get_screenshot_x X device_id timeout w =
     (let adb_prefix = get_adb_prefix device_id
      in case try_body_x X adb_prefix timeout w of
           (Inr s, w1) \<Rightarrow> (Inr s, w1)
         | (Inl (Exn m), w1) \<Rightarrow>
             (create_fallback_screenshot_x X False, print (''Screenshot error: '' @ m) w1)
         | (Inl (BaseExn m), w1) \<Rightarrow> (Inl (BaseExn m), w1))"

text \<open>
  The collaborators of the first model, seen as collaborators that may raise: the
  encoders and the text decoder never do.
\<close>

definition never_raising :: "env \<Rightarrow> xenv" where
  "never_raising E =
     \<lparr>x_subprocess_run = subprocess_run E,
      x_decode_ignore = (\<lambda>b. Inr (decode_ignore E b)),
      x_Image_open = Image_open E,
      x_Image_new = (\<lambda>sz c. Inr (Image_new sz c)),
      x_Image_save_png = (\<lambda>img. Inr (Image_save_png E img)),
      x_b64encode = (\<lambda>b. Inr (b64encode E b))\<rparr>"

section \<open>Vocabulary of the specification\<close>

text \<open>The command line of one attempt, and the response to the \<open>i\<close>-th attempt of a call
  that starts in world \<open>w\<close>.\<close>

definition screencap_argv :: "string option \<Rightarrow> string list" where
  "screencap_argv device_id = get_adb_prefix device_id @ [''exec-out'', ''screencap'', ''-p'']"

definition response :: "env \<Rightarrow> world \<Rightarrow> string option \<Rightarrow> int \<Rightarrow> nat \<Rightarrow> exn + CompletedProcess" where
  "response E w device_id timeout i =
     subprocess_run E (length (spawned w) + i) (screencap_argv device_id) timeout"

text \<open>The world after one more attempt has spawned its process.\<close>

definition after_spawn :: "string option \<Rightarrow> int \<Rightarrow> world \<Rightarrow> world" where
  "after_spawn device_id timeout w =
     w\<lparr>spawned := spawned w @ [(screencap_argv device_id, timeout)]\<rparr>"

text \<open>A refusal marker: the substring \<open>"Status: -1"\<close> or \<open>"Failed"\<close>.\<close>

definition has_refusal_marker :: "string \<Rightarrow> bool" where
  "has_refusal_marker txt = (sublist ''Status: -1'' txt \<or> sublist ''Failed'' txt)"

text \<open>The stderr text followed by the best-effort decoding of stdout.\<close>

definition combined_text :: "env \<Rightarrow> CompletedProcess \<Rightarrow> string" where
  "combined_text E result = stderr_text E result @ decode_ignore E (stdout_bytes result)"

text \<open>
  Device refusal: stdout is empty and the stderr text has a marker, or stdout is
  non-empty, does not start with the PNG magic bytes, and the combined text has a marker.
\<close>

definition device_refused :: "env \<Rightarrow> CompletedProcess \<Rightarrow> bool" where
  "device_refused E result =
     (if stdout_bytes result = [] then has_refusal_marker (stderr_text E result)
      else (\<not> prefix PNG_MAGIC (stdout_bytes result)) \<and> has_refusal_marker (combined_text E result))"

text \<open>A valid capture: stdout starts with the PNG magic bytes and decodes as the image.\<close>

definition valid_capture :: "env \<Rightarrow> CompletedProcess \<Rightarrow> image \<Rightarrow> bool" where
  "valid_capture E result img =
     (prefix PNG_MAGIC (stdout_bytes result) \<and> Image_open E (stdout_bytes result) = Inr img)"

text \<open>
  An attempt that ends without success and without refusal, and the error it records:
  an invocation-level exception (one the handler of line 49 catches), empty stdout
  without a marker, or non-PNG stdout without a marker.
\<close>

definition plain_failure :: "env \<Rightarrow> exn + CompletedProcess \<Rightarrow> exn \<Rightarrow> bool" where
  "plain_failure E resp e =
     (case resp of
        Inl x \<Rightarrow> (case x of Exn m \<Rightarrow> e = Exn m | BaseExn m \<Rightarrow> False)
      | Inr result \<Rightarrow>
          (if stdout_bytes result = []
           then (\<not> has_refusal_marker (stderr_text E result)) \<and> e = Exn ''empty screenshot output''
           else (\<not> prefix PNG_MAGIC (stdout_bytes result))
                \<and> (\<not> has_refusal_marker (combined_text E result))
                \<and> e = Exn ''screenshot output is not PNG''))"

text \<open>No collaborator raises anything but an \<open>Exception\<close>.\<close>

definition no_BaseExn :: "exn + 'a \<Rightarrow> bool" where
  "no_BaseExn r = (case r of Inl e \<Rightarrow> (case e of Exn m \<Rightarrow> True | BaseExn m \<Rightarrow> False) | Inr v \<Rightarrow> True)"

definition raises_only_Exception :: "xenv \<Rightarrow> bool" where
  "raises_only_Exception X =
     ((\<forall>n argv timeout. no_BaseExn (x_subprocess_run X n argv timeout))
      \<and> (\<forall>b. no_BaseExn (x_decode_ignore X b))
      \<and> (\<forall>b. no_BaseExn (x_Image_open X b))
      \<and> (\<forall>sz c. no_BaseExn (x_Image_new X sz c))
      \<and> (\<forall>img. no_BaseExn (x_Image_save_png X img))
      \<and> (\<forall>b. no_BaseExn (x_b64encode X b)))"

section \<open>Concrete collaborators for evaluation\<close>

text \<open>
  A scripted transport: the \<open>n\<close>-th invocation answers with the \<open>n\<close>-th entry of the
  script, and times out once the script is used up. The codecs are small stand-ins:
  bytes below 128 decode to their ASCII character and the others are ignored; an image
  file is the magic bytes followed by width and height in two bytes each.
\<close>

definition ascii_ignore :: "bytes \<Rightarrow> string" where
  "ascii_ignore bs = map (\<lambda>b. char_of (unat b)) (filter (\<lambda>b. b < 0x80) bs)"

definition to_bytes :: "string \<Rightarrow> bytes" where
  "to_bytes s = map (\<lambda>c. of_nat (of_char c)) s"

definition be16 :: "int \<Rightarrow> bytes" where
  "be16 n = [of_int (n div 256), of_int (n mod 256)]"

definition header_save :: "image \<Rightarrow> bytes" where
  "header_save img = PNG_MAGIC @ be16 (fst (img_size img)) @ be16 (snd (img_size img))"

definition header_open :: "bytes \<Rightarrow> exn + image" where
  "header_open bs =
     (if prefix PNG_MAGIC bs \<and> length bs = 12
      then Inr (Image_new (uint (bs ! 8) * 256 + uint (bs ! 9),
                           uint (bs ! 10) * 256 + uint (bs ! 11)) black)
      else Inl (Exn ''cannot identify image file''))"

definition byte_text :: "bytes \<Rightarrow> string" where
  "byte_text bs = map (\<lambda>b. char_of (unat b)) bs"

definition scripted :: "(exn + CompletedProcess) list \<Rightarrow> env" where
  "scripted script =
     \<lparr>subprocess_run = (\<lambda>n argv timeout. if n < length script then script ! n
                                          else Inl (Exn ''timed out'')),
      decode_ignore = ascii_ignore,
      Image_open = header_open,
      Image_save_png = header_save,
      b64encode = byte_text\<rparr>"

definition w0 :: world where
  "w0 = \<lparr>spawned = [], printed = []\<rparr>"

definition completed :: "bytes \<Rightarrow> string \<Rightarrow> exn + CompletedProcess" where
  "completed out err = Inr \<lparr>stdout = Some out, stderr = Some (to_bytes err)\<rparr>"

text \<open>A 12-byte image file of the stand-in codec: 3 pixels wide, 2 high.\<close>

definition small_png :: bytes where
  "small_png = PNG_MAGIC @ [0, 3, 0, 2]"

text \<open>
  Three scenarios with collaborators that raise. In the first the user interrupts the
  first invocation. In the second both invocations time out and the PNG encoder cannot
  allocate its buffer. In the third the device answers with an image at once, base64
  encoding of these bytes fails, and the fallback image can still be made.
\<close>

definition interrupted :: xenv where
  "interrupted = never_raising (scripted [Inl (BaseExn ''KeyboardInterrupt'')])"

definition encoder_out_of_memory :: xenv where
  "encoder_out_of_memory =
     (never_raising (scripted []))\<lparr>x_Image_save_png := (\<lambda>img. Inl (Exn ''MemoryError''))\<rparr>"

definition base64_fails_on_capture :: xenv where
  "base64_fails_on_capture =
     (never_raising (scripted [completed small_png '''']))
       \<lparr>x_b64encode := (\<lambda>b. if b = small_png then Inl (Exn ''MemoryError'')
                              else Inr (byte_text b))\<rparr>"

section \<open>Properties of a single attempt\<close>

text \<open>Every attempt spawns exactly one process and prints nothing.\<close>

lemma attempt_world:
  "snd (attempt E (get_adb_prefix d) t w) = after_spawn d t w"
  by (simp add: attempt_def run_def after_spawn_def screencap_argv_def Let_def
      split: sum.split exn.split)

text \<open>What an attempt does, read off the response it gets.\<close>

lemma attempt_fst:
  "fst (attempt E (get_adb_prefix d) t w) =
     (case response E w d t 0 of
        Inl x \<Rightarrow> (case x of Exn m \<Rightarrow> Continue (Exn m) | BaseExn m \<Rightarrow> Throw (BaseExn m))
      | Inr r \<Rightarrow>
          (if stdout_bytes r = [] then
             (if has_refusal_marker (stderr_text E r)
              then Return (create_fallback_screenshot E True)
              else Continue (Exn ''empty screenshot output''))
           else if \<not> prefix PNG_MAGIC (stdout_bytes r) then
             (if has_refusal_marker (combined_text E r)
              then Return (create_fallback_screenshot E True)
              else Continue (Exn ''screenshot output is not PNG''))
           else
             (case Image_open E (stdout_bytes r) of
                Inl e \<Rightarrow> Throw e
              | Inr img \<Rightarrow>
                  Return \<lparr>base64_data = b64encode E (stdout_bytes r),
                          width = fst (img_size img), height = snd (img_size img),
                          is_sensitive = False\<rparr>)))"
  by (simp add: attempt_def run_def response_def screencap_argv_def has_refusal_marker_def
      combined_text_def Let_def split: sum.split exn.split)

lemma attempt_refused:
  assumes "response E w d t 0 = Inr r" and "device_refused E r"
  shows "fst (attempt E (get_adb_prefix d) t w) = Return (create_fallback_screenshot E True)"
proof (cases "stdout_bytes r = []")
  case True
  with assms show ?thesis by (simp add: attempt_fst device_refused_def)
next
  case False
  with assms show ?thesis by (simp add: attempt_fst device_refused_def)
qed

lemma valid_capture_nonempty: "valid_capture E r img \<Longrightarrow> stdout_bytes r \<noteq> []"
  by (auto simp add: valid_capture_def PNG_MAGIC_def)

lemma attempt_valid:
  assumes "response E w d t 0 = Inr r" and "valid_capture E r img"
  shows "fst (attempt E (get_adb_prefix d) t w) =
     Return \<lparr>base64_data = b64encode E (stdout_bytes r), width = fst (img_size img),
             height = snd (img_size img), is_sensitive = False\<rparr>"
proof -
  from assms(2) have ne: "stdout_bytes r \<noteq> []" by (rule valid_capture_nonempty)
  from assms(2) have "prefix PNG_MAGIC (stdout_bytes r)"
    and "Image_open E (stdout_bytes r) = Inr img"
    by (simp_all add: valid_capture_def)
  with ne assms(1) show ?thesis by (simp add: attempt_fst)
qed

lemma plain_failure_Exn: "plain_failure E resp e \<Longrightarrow> \<exists>m. e = Exn m"
  unfolding plain_failure_def
  by (cases resp; simp split: exn.splits if_splits)

lemma attempt_plain:
  assumes "plain_failure E (response E w d t 0) e"
  shows "fst (attempt E (get_adb_prefix d) t w) = Continue e"
proof (cases "response E w d t 0")
  case (Inl x)
  with assms show ?thesis
    by (cases x) (simp_all add: attempt_fst plain_failure_def)
next
  case (Inr r)
  show ?thesis
  proof (cases "stdout_bytes r = []")
    case True
    with Inr assms show ?thesis by (simp add: attempt_fst plain_failure_def)
  next
    case False
    with Inr assms show ?thesis by (simp add: attempt_fst plain_failure_def)
  qed
qed

lemma attempt_Continue_D:
  assumes "fst (attempt E (get_adb_prefix d) t w) = Continue e"
  shows "plain_failure E (response E w d t 0) e"
proof (cases "response E w d t 0")
  case (Inl x)
  with assms show ?thesis
    by (cases x) (auto simp add: attempt_fst plain_failure_def)
next
  case (Inr r)
  show ?thesis
  proof (cases "stdout_bytes r = []")
    case True
    with Inr assms show ?thesis
      by (cases "has_refusal_marker (stderr_text E r)")
        (auto simp add: attempt_fst plain_failure_def)
  next
    case False
    note ne = this
    show ?thesis
    proof (cases "prefix PNG_MAGIC (stdout_bytes r)")
      case True
      with ne Inr assms show ?thesis
        by (cases "Image_open E (stdout_bytes r)") (simp_all add: attempt_fst)
    next
      case False
      with ne Inr assms show ?thesis
        by (cases "has_refusal_marker (combined_text E r)")
          (auto simp add: attempt_fst plain_failure_def)
    qed
  qed
qed

lemma attempt_Continue_Exn:
  "fst (attempt E (get_adb_prefix d) t w) = Continue e \<Longrightarrow> \<exists>m. e = Exn m"
  using attempt_Continue_D plain_failure_Exn by blast

lemma attempt_Return_sensitive_D:
  assumes "fst (attempt E (get_adb_prefix d) t w) = Return s" and "is_sensitive s"
  shows "\<exists>r. response E w d t 0 = Inr r \<and> device_refused E r"
proof (cases "response E w d t 0")
  case (Inl x)
  with assms show ?thesis
    by (cases x) (simp_all add: attempt_fst)
next
  case (Inr r)
  show ?thesis
  proof (cases "stdout_bytes r = []")
    case True
    with Inr assms show ?thesis
      by (cases "has_refusal_marker (stderr_text E r)")
        (simp_all add: attempt_fst device_refused_def)
  next
    case False
    note ne = this
    show ?thesis
    proof (cases "prefix PNG_MAGIC (stdout_bytes r)")
      case True
      with ne Inr assms show ?thesis
        by (cases "Image_open E (stdout_bytes r)") (auto simp add: attempt_fst)
    next
      case False
      with ne Inr assms show ?thesis
        by (cases "has_refusal_marker (combined_text E r)")
          (simp_all add: attempt_fst device_refused_def)
    qed
  qed
qed

lemma attempt_fst_cong:
  assumes "response E2 w2 d t 0 = response E1 w1 d t 0"
    and "decode_ignore E2 = decode_ignore E1" and "Image_open E2 = Image_open E1"
    and "Image_save_png E2 = Image_save_png E1" and "b64encode E2 = b64encode E1"
  shows "fst (attempt E2 (get_adb_prefix d) t w2) = fst (attempt E1 (get_adb_prefix d) t w1)"
proof -
  have "stderr_text E2 r = stderr_text E1 r" for r
    using assms(2) by (simp add: stderr_text_def split: option.split)
  moreover have "combined_text E2 r = combined_text E1 r" for r
    using assms(2) by (simp add: combined_text_def stderr_text_def split: option.split)
  moreover have "create_fallback_screenshot E2 True = create_fallback_screenshot E1 True"
    using assms(4,5) by (simp add: create_fallback_screenshot_def)
  ultimately show ?thesis
    using assms(1,3,5) by (simp add: attempt_fst split: sum.split exn.split)
qed

lemma device_refused_marker:
  "device_refused E r \<Longrightarrow>
     has_refusal_marker (stderr_text E r) \<or> has_refusal_marker (combined_text E r)"
  by (cases "stdout_bytes r = []") (simp_all add: device_refused_def)

section \<open>The loop and the call in terms of two attempts\<close>

lemma response_after_spawn:
  "response E (after_spawn d' t' w) d t i = response E w d t (Suc i)"
  by (simp add: response_def after_spawn_def)

lemma response_second: "response E (after_spawn d t w) d t 0 = response E w d t 1"
  by (simp add: response_after_spawn)

lemma spawned_print: "spawned (print l w) = spawned w"
  by (simp add: print_def)

lemma spawned_once: "spawned (after_spawn d t w) = spawned w @ [(screencap_argv d, t)]"
  by (simp add: after_spawn_def)

lemma spawned_twice:
  "spawned (after_spawn d t (after_spawn d t w)) =
     spawned w @ [(screencap_argv d, t), (screencap_argv d, t)]"
  by (simp add: after_spawn_def)

lemma spawned_after_spawn:
  "length (spawned (after_spawn d t w)) = Suc (length (spawned w))"
  by (simp add: after_spawn_def)

lemma attempts_two:
  "attempts E (get_adb_prefix d) t 2 None w =
     (case fst (attempt E (get_adb_prefix d) t w) of
        Return s \<Rightarrow> (Returned s, after_spawn d t w)
      | Throw x \<Rightarrow> (Raised x, after_spawn d t w)
      | Continue e1 \<Rightarrow>
          (case fst (attempt E (get_adb_prefix d) t (after_spawn d t w)) of
             Return s \<Rightarrow> (Returned s, after_spawn d t (after_spawn d t w))
           | Throw x \<Rightarrow> (Raised x, after_spawn d t (after_spawn d t w))
           | Continue e2 \<Rightarrow> (Exhausted (Some e2), after_spawn d t (after_spawn d t w))))"
proof -
  obtain s1 w1 where a1: "attempt E (get_adb_prefix d) t w = (s1, w1)"
    by (cases "attempt E (get_adb_prefix d) t w")
  have w1: "w1 = after_spawn d t w"
    using attempt_world [of E d t w] a1 by simp
  obtain s2 w2 where a2: "attempt E (get_adb_prefix d) t w1 = (s2, w2)"
    by (cases "attempt E (get_adb_prefix d) t w1")
  have w2: "w2 = after_spawn d t w1"
    using attempt_world [of E d t w1] a2 by simp
  show ?thesis
    using a1 a2 w1 w2
    by (simp add: numeral_2_eq_2 split: step.split)
qed

text \<open>The whole call in terms of its first and second attempt.\<close>

lemma get_screenshot_unfold:
  "get_screenshot E d t w =
     (case fst (attempt E (get_adb_prefix d) t w) of
        Return s \<Rightarrow> (Inr s, after_spawn d t w)
      | Throw x \<Rightarrow>
          (case x of
             Exn m \<Rightarrow> (Inr (create_fallback_screenshot E False),
                        print (''Screenshot error: '' @ m) (after_spawn d t w))
           | BaseExn m \<Rightarrow> (Inl (BaseExn m), after_spawn d t w))
      | Continue e1 \<Rightarrow>
          (case fst (attempt E (get_adb_prefix d) t (after_spawn d t w)) of
             Return s \<Rightarrow> (Inr s, after_spawn d t (after_spawn d t w))
           | Throw x \<Rightarrow>
               (case x of
                  Exn m \<Rightarrow> (Inr (create_fallback_screenshot E False),
                     print (''Screenshot error: '' @ m) (after_spawn d t (after_spawn d t w)))
                | BaseExn m \<Rightarrow> (Inl (BaseExn m), after_spawn d t (after_spawn d t w)))
           | Continue e2 \<Rightarrow>
               (case e2 of
                  Exn m \<Rightarrow> (Inr (create_fallback_screenshot E False),
                     print (''Screenshot error: '' @ m)
                       (print (''Screenshot warn: exec-out failed after retry: '' @ m)
                          (after_spawn d t (after_spawn d t w))))
                | BaseExn m \<Rightarrow> (Inl (BaseExn m),
                       print (''Screenshot warn: exec-out failed after retry: '' @ m)
                          (after_spawn d t (after_spawn d t w))))))"
proof -
  obtain s1 w1 where a1: "attempt E (get_adb_prefix d) t w = (s1, w1)"
    by (cases "attempt E (get_adb_prefix d) t w")
  have w1: "w1 = after_spawn d t w"
    using attempt_world [of E d t w] a1 by simp
  obtain s2 w2 where a2: "attempt E (get_adb_prefix d) t w1 = (s2, w2)"
    by (cases "attempt E (get_adb_prefix d) t w1")
  have w2: "w2 = after_spawn d t w1"
    using attempt_world [of E d t w1] a2 by simp
  show ?thesis
    using a1 a2 w1 w2
    by (simp add: get_screenshot_def try_body_def numeral_2_eq_2
        split: step.split exn.split)
qed

lemma get_screenshot_first_Return:
  assumes "fst (attempt E (get_adb_prefix d) t w) = Return s"
  shows "get_screenshot E d t w = (Inr s, after_spawn d t w)"
  using assms by (simp add: get_screenshot_unfold)

lemma get_screenshot_second_Return:
  assumes "fst (attempt E (get_adb_prefix d) t w) = Continue e"
    and "fst (attempt E (get_adb_prefix d) t (after_spawn d t w)) = Return s"
  shows "get_screenshot E d t w = (Inr s, after_spawn d t (after_spawn d t w))"
  using assms by (simp add: get_screenshot_unfold)

lemma get_screenshot_spawned:
  "spawned (snd (get_screenshot E d t w)) = spawned w @ [(screencap_argv d, t)]
   \<or> spawned (snd (get_screenshot E d t w)) =
       spawned w @ [(screencap_argv d, t), (screencap_argv d, t)]"
  by (simp add: get_screenshot_unfold spawned_print spawned_once spawned_twice
      split: step.split exn.split)

section \<open>The fallback image and the stand-in codecs\<close>

lemma fallback_fields:
  "width (create_fallback_screenshot E b) = 1080"
  "height (create_fallback_screenshot E b) = 2400"
  "is_sensitive (create_fallback_screenshot E b) = b"
  by (simp_all add: create_fallback_screenshot_def Let_def)

lemma byte_of_char_of: "of_nat (of_char (char_of (unat (b :: 8 word))) :: nat) = b"
proof -
  have "unat b < 256" using unsigned_less [of b, where ?'a = nat] by simp
  then have "unat b mod 256 = unat b" by simp
  then show ?thesis by simp
qed

lemma to_bytes_byte_text: "to_bytes (byte_text bs) = bs"
  by (induction bs) (simp_all add: to_bytes_def byte_text_def byte_of_char_of del: of_char_of)

section \<open>The program with raising collaborators\<close>

text \<open>What a step or a loop result may carry when only \<open>Exception\<close>s are raised.\<close>

lemma no_BaseExn_iff: "no_BaseExn r \<longleftrightarrow> (\<forall>m. r \<noteq> Inl (BaseExn m))"
  by (cases r; simp add: no_BaseExn_def split: exn.split)

lemma no_BaseExn_simps:
  "no_BaseExn (Inr v)" "no_BaseExn (Inl (Exn m))" "\<not> no_BaseExn (Inl (BaseExn m))"
  by (simp_all add: no_BaseExn_def)

lemma create_fallback_x_no_BaseExn:
  assumes "raises_only_Exception X"
  shows "no_BaseExn (create_fallback_screenshot_x X b)"
proof -
  from assms have n: "no_BaseExn (x_Image_new X (1080, 2400) black)"
    and s: "\<And>img. no_BaseExn (x_Image_save_png X img)"
    and e: "\<And>bs. no_BaseExn (x_b64encode X bs)"
    unfolding raises_only_Exception_def by blast+
  show ?thesis
  proof (cases "x_Image_new X (1080, 2400) black")
    case (Inl x)
    with n show ?thesis by (simp add: create_fallback_screenshot_x_def no_BaseExn_def)
  next
    case i: (Inr img)
    show ?thesis
    proof (cases "x_Image_save_png X img")
      case (Inl x)
      with i s [of img] show ?thesis
        by (simp add: create_fallback_screenshot_x_def no_BaseExn_def)
    next
      case b: (Inr buf)
      show ?thesis
      proof (cases "x_b64encode X buf")
        case (Inl x)
        with i b e [of buf] show ?thesis
          by (simp add: create_fallback_screenshot_x_def no_BaseExn_def)
      next
        case (Inr b64)
        with i b show ?thesis
          by (simp add: create_fallback_screenshot_x_def no_BaseExn_simps)
      qed
    qed
  qed
qed

lemma create_fallback_x_fields:
  assumes "create_fallback_screenshot_x X b = Inr p"
  shows "width p = 1080" and "height p = 2400" and "is_sensitive p = b"
  using assms
  by (auto simp add: create_fallback_screenshot_x_def Let_def split: sum.splits)

lemma stderr_text_x_no_BaseExn:
  assumes "raises_only_Exception X"
  shows "no_BaseExn (stderr_text_x X r)"
proof -
  from assms have "no_BaseExn (x_decode_ignore X b)" for b
    unfolding raises_only_Exception_def by blast
  then show ?thesis
    by (simp add: stderr_text_x_def no_BaseExn_simps split: option.split)
qed

lemma combined_text_x_Inr:
  assumes "raises_only_Exception X"
  shows "\<exists>both. combined_text_x X err out = Inr both"
proof -
  from assms have "no_BaseExn (x_decode_ignore X out)"
    unfolding raises_only_Exception_def by blast
  then show ?thesis
    by (cases "x_decode_ignore X out")
      (auto simp add: combined_text_x_def no_BaseExn_def split: exn.splits)
qed

lemma return_fallback_x_shape:
  assumes "raises_only_Exception X"
  shows "(\<exists>s. fst (return_fallback_x X w) = Return s)
       \<or> (\<exists>m. fst (return_fallback_x X w) = Throw (Exn m))"
proof (cases "create_fallback_screenshot_x X True")
  case (Inl e)
  with create_fallback_x_no_BaseExn [OF assms, of True] obtain m where "e = Exn m"
    by (cases e) (simp_all add: no_BaseExn_simps)
  with Inl show ?thesis by (simp add: return_fallback_x_def)
next
  case (Inr s)
  then show ?thesis by (simp add: return_fallback_x_def)
qed

lemma attempt_x_shape:
  assumes "raises_only_Exception X"
  shows "(\<exists>s. fst (attempt_x X p t w) = Return s)
       \<or> (\<exists>m. fst (attempt_x X p t w) = Continue (Exn m))
       \<or> (\<exists>m. fst (attempt_x X p t w) = Throw (Exn m))"
proof -
  let ?argv = "p @ [''exec-out'', ''screencap'', ''-p'']"
  let ?w1 = "w\<lparr>spawned := spawned w @ [(?argv, t)]\<rparr>"
  from assms have n: "no_BaseExn (x_subprocess_run X (length (spawned w)) ?argv t)"
    unfolding raises_only_Exception_def by blast
  show ?thesis
  proof (cases "x_subprocess_run X (length (spawned w)) ?argv t")
    case (Inl e)
    with n obtain m where "e = Exn m" by (cases e) (simp_all add: no_BaseExn_simps)
    with Inl show ?thesis by (simp add: attempt_x_def run_x_def)
  next
    case r: (Inr result)
    show ?thesis
    proof (cases "stderr_text_x X result")
      case (Inl e)
      with stderr_text_x_no_BaseExn [OF assms, of result] obtain m where "e = Exn m"
        by (cases e) (simp_all add: no_BaseExn_simps)
      with r Inl show ?thesis by (simp add: attempt_x_def run_x_def)
    next
      case err: (Inr err)
      show ?thesis
      proof (cases "stdout_bytes result = []")
        case True
        with r err return_fallback_x_shape [OF assms, of ?w1] show ?thesis
          by (auto simp add: attempt_x_def run_x_def)
      next
        case ne: False
        show ?thesis
        proof (cases "prefix PNG_MAGIC (stdout_bytes result)")
          case False
          from combined_text_x_Inr [OF assms, of err "stdout_bytes result"]
          obtain both where "combined_text_x X err (stdout_bytes result) = Inr both" ..
          with r err ne False return_fallback_x_shape [OF assms, of ?w1] show ?thesis
            by (auto simp add: attempt_x_def run_x_def)
        next
          case True
          show ?thesis
          proof (cases "x_Image_open X (stdout_bytes result)")
            case (Inl e)
            from assms have "no_BaseExn (x_Image_open X (stdout_bytes result))"
              unfolding raises_only_Exception_def by blast
            with Inl obtain m where "e = Exn m" by (cases e) (simp_all add: no_BaseExn_simps)
            with r err ne True Inl show ?thesis by (simp add: attempt_x_def run_x_def)
          next
            case img: (Inr img)
            show ?thesis
            proof (cases "x_b64encode X (stdout_bytes result)")
              case (Inl e)
              from assms have "no_BaseExn (x_b64encode X (stdout_bytes result))"
                unfolding raises_only_Exception_def by blast
              with Inl obtain m where "e = Exn m" by (cases e) (simp_all add: no_BaseExn_simps)
              with r err ne True img Inl show ?thesis by (simp add: attempt_x_def run_x_def)
            next
              case (Inr b64)
              with r err ne True img show ?thesis by (simp add: attempt_x_def run_x_def)
            qed
          qed
        qed
      qed
    qed
  qed
qed

lemma attempts_x_shape:
  assumes "raises_only_Exception X" and "le = None \<or> (\<exists>m. le = Some (Exn m))"
  shows "(\<exists>s. fst (attempts_x X p t n le w) = Returned s)
       \<or> (\<exists>m. fst (attempts_x X p t n le w) = Raised (Exn m))
       \<or> fst (attempts_x X p t n le w) = Exhausted None
       \<or> (\<exists>m. fst (attempts_x X p t n le w) = Exhausted (Some (Exn m)))"
  using assms(2)
proof (induction n arbitrary: le w)
  case 0
  then show ?case by auto
next
  case (Suc n)
  obtain st w1 where a: "attempt_x X p t w = (st, w1)" by (cases "attempt_x X p t w")
  from attempt_x_shape [OF assms(1), of p t w] a
  consider s where "st = Return s" | m where "st = Continue (Exn m)" | m where "st = Throw (Exn m)"
    by auto
  then show ?case
  proof cases
    case 1
    with a show ?thesis by simp
  next
    case 2
    with a Suc.IH [of "Some (Exn m)" w1] show ?thesis by simp
  next
    case 3
    with a show ?thesis by simp
  qed
qed

lemma try_body_x_shape:
  assumes "raises_only_Exception X" and "create_fallback_screenshot_x X False = Inr placeholder"
  shows "(\<exists>s. fst (try_body_x X p t w) = Inr s) \<or> (\<exists>m. fst (try_body_x X p t w) = Inl (Exn m))"
proof -
  obtain lr w1 where a: "attempts_x X p t 2 None w = (lr, w1)"
    by (cases "attempts_x X p t 2 None w")
  from attempts_x_shape [OF assms(1), of None p t 2 w] a
  consider s where "lr = Returned s" | m where "lr = Raised (Exn m)" | "lr = Exhausted None"
    | m where "lr = Exhausted (Some (Exn m))"
    by auto
  then show ?thesis
  proof cases
    case 1
    with a show ?thesis by (simp add: try_body_x_def)
  next
    case 2
    with a show ?thesis by (simp add: try_body_x_def)
  next
    case 3
    with a assms(2) show ?thesis by (simp add: try_body_x_def)
  next
    case 4
    with a show ?thesis by (simp add: try_body_x_def)
  qed
qed

text \<open>With collaborators that never raise, the two models are one program.\<close>

lemma create_fallback_never_raising:
  "create_fallback_screenshot_x (never_raising E) b = Inr (create_fallback_screenshot E b)"
  by (simp add: create_fallback_screenshot_x_def create_fallback_screenshot_def never_raising_def
      Let_def)

lemma attempt_never_raising: "attempt_x (never_raising E) p t w = attempt E p t w"
proof -
  have r: "run_x (never_raising E) a t w = run E a t w" for a
    by (simp add: run_x_def run_def never_raising_def)
  have e: "stderr_text_x (never_raising E) result = Inr (stderr_text E result)" for result
    by (simp add: stderr_text_x_def stderr_text_def never_raising_def split: option.split)
  have c: "combined_text_x (never_raising E) err out = Inr (err @ decode_ignore E out)" for err out
    by (simp add: combined_text_x_def never_raising_def)
  have f: "return_fallback_x (never_raising E) w1 = (Return (create_fallback_screenshot E True), w1)"
    for w1
    by (simp add: return_fallback_x_def create_fallback_never_raising)
  have o: "x_Image_open (never_raising E) = Image_open E"
    and b: "x_b64encode (never_raising E) out = Inr (b64encode E out)" for out
    by (simp_all add: never_raising_def)
  show ?thesis
    by (simp add: attempt_x_def attempt_def r e c f o b Let_def
        split: prod.split sum.split exn.split)
qed

lemma attempts_never_raising: "attempts_x (never_raising E) p t n le w = attempts E p t n le w"
  by (induction n arbitrary: le w) (simp_all add: attempt_never_raising split: prod.split step.split)

lemma get_screenshot_never_raising:
  "get_screenshot_x (never_raising E) d t w = get_screenshot E d t w"
  by (simp add: get_screenshot_x_def get_screenshot_def try_body_x_def try_body_def
      attempts_never_raising create_fallback_never_raising Let_def
      split: prod.split loop_result.split option.split sum.split exn.split)

section \<open>C1: the call never fails outward\<close>

text \<open>
  C1 as stated fails, in two ways. An exception that is not an \<open>Exception\<close> passes both
  handlers (lines 49 and 91): when the first invocation is interrupted, the call raises
  \<open>KeyboardInterrupt\<close> to its caller. And line 93 calls the fallback generator inside the
  handler, where nothing guards it: when both invocations time out and the PNG encoder
  raises, that exception reaches the caller as well.
\<close>

theorem capture_propagates_exceptions:
  "fst (get_screenshot_x interrupted None 60 w0) = Inl (BaseExn ''KeyboardInterrupt'')
   \<and> fst (get_screenshot_x encoder_out_of_memory None 60 w0) = Inl (Exn ''MemoryError'')"
  by code_simp

text \<open>
  C1, amended: for every device id, timeout and starting world, and for every outcome of
  the process invocation, the text decoder, the image decoder and the encoders in which
  none of them raises anything but an instance of \<open>Exception\<close> and the fallback generator
  of line 93 returns, the call returns a screenshot record and raises nothing; and an
  \<open>Exception\<close> that escapes the body of the outer \<open>try\<close>, also one an encoder raised
  there, is printed and turned into the fallback image, which is 1080 by 2400 and not
  sensitive.
\<close>

theorem capture_total_on_Exceptions:
  assumes "raises_only_Exception X"
    and "create_fallback_screenshot_x X False = Inr placeholder"
  shows "(\<exists>s w'. get_screenshot_x X d t w = (Inr s, w'))
       \<and> (\<forall>m w1. try_body_x X (get_adb_prefix d) t w = (Inl (Exn m), w1) \<longrightarrow>
             get_screenshot_x X d t w =
               (Inr placeholder, print (''Screenshot error: '' @ m) w1))
       \<and> width placeholder = 1080
       \<and> height placeholder = 2400
       \<and> \<not> is_sensitive placeholder"
proof -
  let ?p = "get_adb_prefix d"
  obtain r w1 where tb: "try_body_x X ?p t w = (r, w1)" by (cases "try_body_x X ?p t w")
  from try_body_x_shape [OF assms, of ?p t w] tb
  consider s where "r = Inr s" | m where "r = Inl (Exn m)" by auto
  then have total: "\<exists>s w'. get_screenshot_x X d t w = (Inr s, w')"
  proof cases
    case 1
    with tb show ?thesis by (simp add: get_screenshot_x_def)
  next
    case 2
    with tb assms(2) show ?thesis by (simp add: get_screenshot_x_def)
  qed
  have conv: "\<forall>m w1. try_body_x X ?p t w = (Inl (Exn m), w1) \<longrightarrow>
      get_screenshot_x X d t w = (Inr placeholder, print (''Screenshot error: '' @ m) w1)"
    using assms(2) by (simp add: get_screenshot_x_def)
  from total conv create_fallback_x_fields [OF assms(2)] show ?thesis by simp
qed

text \<open>
  An instance: the device answers with an image, base64 encoding of its bytes raises,
  and the call prints the error and returns the fallback image.
\<close>

theorem capture_total_on_Exceptions_witness:
  "raises_only_Exception base64_fails_on_capture
   \<and> create_fallback_screenshot_x base64_fails_on_capture False
        = Inr (create_fallback_screenshot (scripted []) False)
   \<and> try_body_x base64_fails_on_capture (get_adb_prefix None) 60 w0
        = (Inl (Exn ''MemoryError''), after_spawn None 60 w0)
   \<and> get_screenshot_x base64_fails_on_capture None 60 w0
        = (Inr (create_fallback_screenshot (scripted []) False),
           print (''Screenshot error: '' @ ''MemoryError'') (after_spawn None 60 w0))"
proof -
  let ?X = "base64_fails_on_capture"
  have h1: "raises_only_Exception ?X"
    by (simp add: raises_only_Exception_def base64_fails_on_capture_def never_raising_def
        scripted_def completed_def header_open_def no_BaseExn_def nth_Cons')
  have h2: "create_fallback_screenshot_x ?X False
      = Inr (create_fallback_screenshot (scripted []) False)"
    by code_simp
  have tb: "try_body_x ?X (get_adb_prefix None) 60 w0
      = (Inl (Exn ''MemoryError''), after_spawn None 60 w0)"
    by code_simp
  from capture_total_on_Exceptions [OF h1 h2, of None 60 w0] tb
  have "get_screenshot_x ?X None 60 w0
        = (Inr (create_fallback_screenshot (scripted []) False),
           print (''Screenshot error: '' @ ''MemoryError'') (after_spawn None 60 w0))"
    by blast
  with h1 h2 tb show ?thesis by blast
qed

section \<open>C2: device refusal\<close>

text \<open>
  C2: an attempt whose response is a device refusal (empty stdout with a marker in the
  stderr text, or non-empty stdout that does not start with the PNG magic bytes with a
  marker in the combined text) makes the call return the fallback image with
  \<open>is_sensitive = True\<close>, 1080 by 2400, at once: when it is the first attempt, one
  process has been spawned; when it is the second attempt, after a first one that failed
  plainly, two have been, and nothing is printed in either case.
\<close>

theorem refusal_returns_sensitive_placeholder:
  assumes "device_refused E result"
  shows "(response E w d t 0 = Inr result \<longrightarrow>
            get_screenshot E d t w =
              (Inr (create_fallback_screenshot E True), after_spawn d t w))
       \<and> (\<forall>e. plain_failure E (response E w d t 0) e \<and> response E w d t 1 = Inr result \<longrightarrow>
            get_screenshot E d t w =
              (Inr (create_fallback_screenshot E True), after_spawn d t (after_spawn d t w)))
       \<and> is_sensitive (create_fallback_screenshot E True)
       \<and> width (create_fallback_screenshot E True) = 1080
       \<and> height (create_fallback_screenshot E True) = 2400"
proof -
  have first: "get_screenshot E d t w =
      (Inr (create_fallback_screenshot E True), after_spawn d t w)"
    if "response E w d t 0 = Inr result"
    using attempt_refused [OF that assms] by (rule get_screenshot_first_Return)
  have second: "get_screenshot E d t w =
      (Inr (create_fallback_screenshot E True), after_spawn d t (after_spawn d t w))"
    if f: "plain_failure E (response E w d t 0) e" and r: "response E w d t 1 = Inr result" for e
  proof -
    from r have "response E (after_spawn d t w) d t 0 = Inr result"
      by (simp add: response_second)
    from attempt_plain [OF f] attempt_refused [OF this assms]
    show ?thesis by (rule get_screenshot_second_Return)
  qed
  from first second show ?thesis by (auto simp add: fallback_fields)
qed

text \<open>
  Two instances: \<open>Status: -1\<close> on stderr with empty stdout at the first attempt; and
  \<open>Failed\<close> inside a non-PNG stdout at the second attempt, after an empty first one.
\<close>

theorem refusal_returns_sensitive_placeholder_witness:
  "device_refused (scripted [completed [] ''Status: -1''])
       \<lparr>stdout = Some [], stderr = Some (to_bytes ''Status: -1'')\<rparr>
   \<and> response (scripted [completed [] ''Status: -1'']) w0 None 60 0
        = Inr \<lparr>stdout = Some [], stderr = Some (to_bytes ''Status: -1'')\<rparr>
   \<and> get_screenshot (scripted [completed [] ''Status: -1'']) None 60 w0
        = (Inr (create_fallback_screenshot (scripted [completed [] ''Status: -1'']) True),
           after_spawn None 60 w0)
   \<and> device_refused (scripted [completed [] '''', completed (to_bytes ''screencap: Failed'') ''''])
       \<lparr>stdout = Some (to_bytes ''screencap: Failed''), stderr = Some []\<rparr>
   \<and> plain_failure (scripted [completed [] '''', completed (to_bytes ''screencap: Failed'') ''''])
        (response (scripted [completed [] '''', completed (to_bytes ''screencap: Failed'') ''''])
           w0 None 60 0)
        (Exn ''empty screenshot output'')
   \<and> response (scripted [completed [] '''', completed (to_bytes ''screencap: Failed'') ''''])
        w0 None 60 1
        = Inr \<lparr>stdout = Some (to_bytes ''screencap: Failed''), stderr = Some []\<rparr>
   \<and> get_screenshot (scripted [completed [] '''', completed (to_bytes ''screencap: Failed'') ''''])
        None 60 w0
        = (Inr (create_fallback_screenshot
                 (scripted [completed [] '''', completed (to_bytes ''screencap: Failed'') '''']) True),
           after_spawn None 60 (after_spawn None 60 w0))"
proof -
  let ?r = "\<lparr>stdout = Some [], stderr = Some (to_bytes ''Status: -1'')\<rparr>"
  let ?E = "scripted [completed [] ''Status: -1'']"
  have h: "device_refused ?E ?r" by code_simp
  have r: "response ?E w0 None 60 0 = Inr ?r"
    by (simp add: response_def scripted_def w0_def completed_def)
  from refusal_returns_sensitive_placeholder [OF h, of w0 None 60] r
  have g: "get_screenshot ?E None 60 w0 =
      (Inr (create_fallback_screenshot ?E True), after_spawn None 60 w0)"
    by blast
  let ?r' = "\<lparr>stdout = Some (to_bytes ''screencap: Failed''), stderr = Some []\<rparr>"
  let ?E' = "scripted [completed [] '''', completed (to_bytes ''screencap: Failed'') '''']"
  have h': "device_refused ?E' ?r'" by code_simp
  have f': "plain_failure ?E' (response ?E' w0 None 60 0) (Exn ''empty screenshot output'')"
    by code_simp
  have r': "response ?E' w0 None 60 1 = Inr ?r'"
    by (simp add: response_def scripted_def w0_def completed_def to_bytes_def)
  from refusal_returns_sensitive_placeholder [OF h', of w0 None 60] f' r'
  have g': "get_screenshot ?E' None 60 w0 =
      (Inr (create_fallback_screenshot ?E' True), after_spawn None 60 (after_spawn None 60 w0))"
    by blast
  from h r g h' f' r' g' show ?thesis by blast
qed

section \<open>C3: the success path\<close>

text \<open>
  C3: an attempt whose stdout starts with the PNG magic bytes and opens as an image makes
  the call return \<open>is_sensitive = False\<close>, the width and height of that image, and the
  base64 text of the raw stdout bytes; the loop stops there, after one spawn when it is the
  first attempt and after two when it is the second.
\<close>

theorem valid_png_returns_capture:
  assumes "valid_capture E result img"
  shows "(response E w d t 0 = Inr result \<longrightarrow>
            get_screenshot E d t w =
              (Inr \<lparr>base64_data = b64encode E (stdout_bytes result),
                    width = fst (img_size img), height = snd (img_size img),
                    is_sensitive = False\<rparr>, after_spawn d t w))
       \<and> (\<forall>e. plain_failure E (response E w d t 0) e \<and> response E w d t 1 = Inr result \<longrightarrow>
            get_screenshot E d t w =
              (Inr \<lparr>base64_data = b64encode E (stdout_bytes result),
                    width = fst (img_size img), height = snd (img_size img),
                    is_sensitive = False\<rparr>, after_spawn d t (after_spawn d t w)))"
proof -
  let ?s = "\<lparr>base64_data = b64encode E (stdout_bytes result),
             width = fst (img_size img), height = snd (img_size img),
             is_sensitive = False\<rparr>"
  have first: "get_screenshot E d t w = (Inr ?s, after_spawn d t w)"
    if "response E w d t 0 = Inr result"
    using attempt_valid [OF that assms] by (rule get_screenshot_first_Return)
  have second: "get_screenshot E d t w = (Inr ?s, after_spawn d t (after_spawn d t w))"
    if f: "plain_failure E (response E w d t 0) e" and r: "response E w d t 1 = Inr result" for e
  proof -
    from r have "response E (after_spawn d t w) d t 0 = Inr result"
      by (simp add: response_second)
    from attempt_plain [OF f] attempt_valid [OF this assms]
    show ?thesis by (rule get_screenshot_second_Return)
  qed
  from first second show ?thesis by blast
qed

text \<open>
  An instance: a timeout, then a 3 by 2 image for device \<open>emulator-5554\<close>.
\<close>

theorem valid_png_returns_capture_witness:
  "valid_capture (scripted [Inl (Exn ''timed out''), completed small_png ''''])
      \<lparr>stdout = Some small_png, stderr = Some []\<rparr> (Image_new (3, 2) black)
   \<and> plain_failure (scripted [Inl (Exn ''timed out''), completed small_png ''''])
        (response (scripted [Inl (Exn ''timed out''), completed small_png '''']) w0 (Some ''emulator-5554'') 60 0)
        (Exn ''timed out'')
   \<and> get_screenshot (scripted [Inl (Exn ''timed out''), completed small_png '''']) (Some ''emulator-5554'') 60 w0
        = (Inr \<lparr>base64_data = byte_text small_png, width = 3, height = 2, is_sensitive = False\<rparr>,
           after_spawn (Some ''emulator-5554'') 60 (after_spawn (Some ''emulator-5554'') 60 w0))"
proof -
  let ?E = "scripted [Inl (Exn ''timed out''), completed small_png '''']"
  let ?r = "\<lparr>stdout = Some small_png, stderr = Some []\<rparr>"
  let ?d = "Some ''emulator-5554''"
  have h: "valid_capture ?E ?r (Image_new (3, 2) black)"
    by (simp add: valid_capture_def scripted_def stdout_bytes_def small_png_def header_open_def
        PNG_MAGIC_def)
  have r0: "response ?E w0 ?d 60 0 = Inl (Exn ''timed out'')"
    by (simp add: response_def scripted_def w0_def)
  have f: "plain_failure ?E (response ?E w0 ?d 60 0) (Exn ''timed out'')"
    by (simp add: r0 plain_failure_def)
  have r1: "response ?E w0 ?d 60 1 = Inr ?r"
    by (simp add: response_def scripted_def w0_def completed_def to_bytes_def)
  from valid_png_returns_capture [OF h, of w0 ?d 60] f r1
  have "get_screenshot ?E ?d 60 w0 =
      (Inr \<lparr>base64_data = b64encode ?E (stdout_bytes ?r),
            width = fst (img_size (Image_new (3, 2) black)),
            height = snd (img_size (Image_new (3, 2) black)),
            is_sensitive = False\<rparr>, after_spawn ?d 60 (after_spawn ?d 60 w0))"
    by blast
  then have "get_screenshot ?E ?d 60 w0 =
      (Inr \<lparr>base64_data = byte_text small_png, width = 3, height = 2, is_sensitive = False\<rparr>,
       after_spawn ?d 60 (after_spawn ?d 60 w0))"
    by (simp add: scripted_def stdout_bytes_def Image_new_def)
  with h f show ?thesis by blast
qed

section \<open>C4: both attempts used up\<close>

text \<open>
  C4: when both attempts fail plainly (an invocation-level exception caught at line 49,
  empty stdout without a marker, or non-PNG stdout without a marker), the call prints the
  error recorded last, first in the retry warning of line 87 and then, since line 88
  raises it, in the error line of line 92, and returns the fallback image with
  \<open>is_sensitive = False\<close>, 1080 by 2400.
\<close>

theorem exhausted_returns_plain_placeholder:
  assumes "plain_failure E (response E w d t 0) e1"
    and "plain_failure E (response E w d t 1) e2"
  shows "get_screenshot E d t w =
           (Inr (create_fallback_screenshot E False),
            print (''Screenshot error: '' @ str e2)
              (print (''Screenshot warn: exec-out failed after retry: '' @ str e2)
                 (after_spawn d t (after_spawn d t w))))
       \<and> \<not> is_sensitive (create_fallback_screenshot E False)
       \<and> width (create_fallback_screenshot E False) = 1080
       \<and> height (create_fallback_screenshot E False) = 2400"
proof -
  from assms(2) have "plain_failure E (response E (after_spawn d t w) d t 0) e2"
    by (simp add: response_second)
  then have a2: "fst (attempt E (get_adb_prefix d) t (after_spawn d t w)) = Continue e2"
    by (rule attempt_plain)
  from assms(1) have a1: "fst (attempt E (get_adb_prefix d) t w) = Continue e1"
    by (rule attempt_plain)
  from assms(2) obtain m where m: "e2 = Exn m"
    using plain_failure_Exn by blast
  from a1 a2 m show ?thesis
    by (simp add: get_screenshot_unfold fallback_fields)
qed

text \<open>
  An instance: a timeout, then a textual error message on stdout.
\<close>

theorem exhausted_returns_plain_placeholder_witness:
  "plain_failure (scripted [Inl (Exn ''timed out''), completed (to_bytes ''error: closed'') ''''])
      (response (scripted [Inl (Exn ''timed out''), completed (to_bytes ''error: closed'') ''''])
         w0 None 60 0) (Exn ''timed out'')
   \<and> plain_failure (scripted [Inl (Exn ''timed out''), completed (to_bytes ''error: closed'') ''''])
      (response (scripted [Inl (Exn ''timed out''), completed (to_bytes ''error: closed'') ''''])
         w0 None 60 1) (Exn ''screenshot output is not PNG'')
   \<and> get_screenshot (scripted [Inl (Exn ''timed out''), completed (to_bytes ''error: closed'') ''''])
        None 60 w0 =
       (Inr (create_fallback_screenshot
               (scripted [Inl (Exn ''timed out''), completed (to_bytes ''error: closed'') '''']) False),
        \<lparr>spawned = [([''adb'', ''exec-out'', ''screencap'', ''-p''], 60),
                    ([''adb'', ''exec-out'', ''screencap'', ''-p''], 60)],
         printed = [''Screenshot warn: exec-out failed after retry: screenshot output is not PNG'',
                    ''Screenshot error: screenshot output is not PNG'']\<rparr>)"
proof -
  let ?E = "scripted [Inl (Exn ''timed out''), completed (to_bytes ''error: closed'') '''']"
  have r0: "response ?E w0 None 60 0 = Inl (Exn ''timed out'')"
    by (simp add: response_def scripted_def w0_def)
  have f0: "plain_failure ?E (response ?E w0 None 60 0) (Exn ''timed out'')"
    by (simp add: r0 plain_failure_def)
  have f1: "plain_failure ?E (response ?E w0 None 60 1) (Exn ''screenshot output is not PNG'')"
    by code_simp
  have "get_screenshot ?E None 60 w0 =
       (Inr (create_fallback_screenshot ?E False),
        \<lparr>spawned = [([''adb'', ''exec-out'', ''screencap'', ''-p''], 60),
                    ([''adb'', ''exec-out'', ''screencap'', ''-p''], 60)],
         printed = [''Screenshot warn: exec-out failed after retry: screenshot output is not PNG'',
                    ''Screenshot error: screenshot output is not PNG'']\<rparr>)"
    using exhausted_returns_plain_placeholder [OF f0 f1]
    by (simp add: print_def after_spawn_def screencap_argv_def get_adb_prefix_def w0_def)
  with f0 f1 show ?thesis by blast
qed

section \<open>C5: when the result is sensitive\<close>

lemma attempt_not_refused:
  assumes "response E w d t 0 = Inr r" and "device_refused E r"
  shows "fst (attempt E (get_adb_prefix d) t w) \<noteq> Throw x"
    and "fst (attempt E (get_adb_prefix d) t w) \<noteq> Continue e"
  using attempt_refused [OF assms] by simp_all

text \<open>
  C5: when the call returns a screenshot, its \<open>is_sensitive\<close> is true exactly if one of
  the (at most two) attempts it made got a device refusal: empty stdout with a refusal
  marker in the stderr text, or non-empty stdout that does not start with the PNG magic
  bytes with a marker in the combined stderr and decoded stdout text. So a marker was
  present whenever the flag is true, and the flag is false on the success path, also
  with a marker on stderr, and on every other failure path: empty or non-PNG output
  without a marker, invocation exceptions, retries used up, and an image that does not
  open, also with a marker.
\<close>

theorem sensitive_only_on_refusal:
  assumes "get_screenshot E d t w = (Inr s, w')"
  shows "is_sensitive s \<longleftrightarrow>
           (\<exists>i result. i < 2 \<and> length (spawned w) + i < length (spawned w')
              \<and> response E w d t i = Inr result
              \<and> device_refused E result
              \<and> (has_refusal_marker (stderr_text E result)
                   \<or> has_refusal_marker (combined_text E result)))"
proof -
  let ?p = "get_adb_prefix d"
  let ?w1 = "after_spawn d t w"
  let ?R = "\<lambda>i result. i < (2::nat) \<and> length (spawned w) + i < length (spawned w')
              \<and> response E w d t i = Inr result
              \<and> device_refused E result
              \<and> (has_refusal_marker (stderr_text E result)
                   \<or> has_refusal_marker (combined_text E result))"
  have second: "response E ?w1 d t 0 = response E w d t 1"
    by (rule response_second)
  show ?thesis
  proof (cases "fst (attempt E ?p t w)")
    case (Return s1)
    with assms have s: "s1 = s" and w': "w' = ?w1"
      by (simp_all add: get_screenshot_unfold)
    show ?thesis
    proof
      assume "is_sensitive s"
      with Return s obtain r where r: "response E w d t 0 = Inr r" "device_refused E r"
        using attempt_Return_sensitive_D by blast
      with w' device_refused_marker [of E r] have "?R 0 r"
        by (simp add: spawned_after_spawn)
      then show "\<exists>i result. ?R i result" by blast
    next
      assume "\<exists>i result. ?R i result"
      then obtain i r where R: "?R i r" by blast
      with w' have "i = 0" by (simp add: spawned_after_spawn)
      with R have "response E w d t 0 = Inr r" and "device_refused E r" by simp_all
      then have "fst (attempt E ?p t w) = Return (create_fallback_screenshot E True)"
        by (rule attempt_refused)
      with Return s have "s = create_fallback_screenshot E True" by simp
      then show "is_sensitive s" by (simp only: fallback_fields)
    qed
  next
    case (Throw x)
    with assms obtain m where x: "x = Exn m"
      and s: "s = create_fallback_screenshot E False"
      and w': "w' = print (''Screenshot error: '' @ m) ?w1"
      by (cases x) (simp_all add: get_screenshot_unfold)
    have "\<not> ?R i r" for i r
    proof
      assume R: "?R i r"
      with w' have "i = 0" by (simp add: spawned_print spawned_once)
      with R have "response E w d t 0 = Inr r" and "device_refused E r" by simp_all
      from attempt_not_refused(1) [OF this] Throw show False by blast
    qed
    with s show ?thesis by (simp add: fallback_fields)
  next
    case c1: (Continue e1)
    have no0: "\<not> (response E w d t 0 = Inr r \<and> device_refused E r)" for r
      using attempt_not_refused(2) [of E w d t r e1] c1 by blast
    show ?thesis
    proof (cases "fst (attempt E ?p t ?w1)")
      case (Return s2)
      with c1 assms have s: "s2 = s" and w': "w' = after_spawn d t ?w1"
        by (simp_all add: get_screenshot_unfold)
      show ?thesis
      proof
        assume "is_sensitive s"
        with Return s obtain r where "response E ?w1 d t 0 = Inr r" and dr: "device_refused E r"
          using attempt_Return_sensitive_D by blast
        then have "response E w d t 1 = Inr r" by (simp add: second)
        with dr w' device_refused_marker [of E r] have "?R 1 r"
          by (simp add: spawned_after_spawn)
        then show "\<exists>i result. ?R i result" by blast
      next
        assume "\<exists>i result. ?R i result"
        then obtain i r where R: "?R i r" by blast
        then have "i = 0 \<or> i = 1" by auto
        with R no0 have "response E w d t 1 = Inr r" and dr: "device_refused E r" by auto
        then have "response E ?w1 d t 0 = Inr r" by (simp add: second)
        from this dr
        have "fst (attempt E ?p t ?w1) = Return (create_fallback_screenshot E True)"
          by (rule attempt_refused)
        with Return s have "s = create_fallback_screenshot E True" by simp
        then show "is_sensitive s" by (simp only: fallback_fields)
      qed
    next
      case (Throw x)
      with c1 assms have s: "s = create_fallback_screenshot E False"
        by (cases x) (simp_all add: get_screenshot_unfold)
      have "\<not> ?R i r" for i r
      proof
        assume R: "?R i r"
        then have "i = 0 \<or> i = 1" by auto
        with R no0 have "response E w d t 1 = Inr r" and dr: "device_refused E r" by auto
        then have "response E ?w1 d t 0 = Inr r" by (simp add: second)
        from attempt_not_refused(1) [OF this dr] Throw show False by blast
      qed
      with s show ?thesis by (simp add: fallback_fields)
    next
      case (Continue e2)
      with c1 assms have s: "s = create_fallback_screenshot E False"
        by (cases e2) (simp_all add: get_screenshot_unfold)
      have "\<not> ?R i r" for i r
      proof
        assume R: "?R i r"
        then have "i = 0 \<or> i = 1" by auto
        with R no0 have "response E w d t 1 = Inr r" and dr: "device_refused E r" by auto
        then have "response E ?w1 d t 0 = Inr r" by (simp add: second)
        from attempt_not_refused(2) [OF this dr] Continue show False by blast
      qed
      with s show ?thesis by (simp add: fallback_fields)
    qed
  qed
qed

text \<open>
  Two instances: the marker is found in non-PNG output by the second attempt, and the
  result is sensitive; stdout starts with the PNG magic bytes but does not open as an
  image, with \<open>Failed\<close> on stderr, and the result is not sensitive.
\<close>

theorem sensitive_only_on_refusal_witness:
  "get_screenshot (scripted [completed [] '''', completed (to_bytes ''screencap: Failed'') ''''])
       None 60 w0 =
     (Inr (create_fallback_screenshot
            (scripted [completed [] '''', completed (to_bytes ''screencap: Failed'') '''']) True),
      after_spawn None 60 (after_spawn None 60 w0))
   \<and> (\<exists>i result. i < 2
        \<and> length (spawned w0) + i < length (spawned (after_spawn None 60 (after_spawn None 60 w0)))
        \<and> response (scripted [completed [] '''', completed (to_bytes ''screencap: Failed'') ''''])
             w0 None 60 i = Inr result
        \<and> device_refused
              (scripted [completed [] '''', completed (to_bytes ''screencap: Failed'') '''']) result
        \<and> (has_refusal_marker
              (stderr_text (scripted [completed [] '''', completed (to_bytes ''screencap: Failed'') ''''])
                 result)
            \<or> has_refusal_marker
              (combined_text (scripted [completed [] '''', completed (to_bytes ''screencap: Failed'') ''''])
                 result)))
   \<and> get_screenshot (scripted [completed (PNG_MAGIC @ to_bytes ''Failed'') ''Failed'']) None 60 w0 =
     (Inr (create_fallback_screenshot
            (scripted [completed (PNG_MAGIC @ to_bytes ''Failed'') ''Failed'']) False),
      print ''Screenshot error: cannot identify image file'' (after_spawn None 60 w0))
   \<and> \<not> (\<exists>i result. i < 2
        \<and> length (spawned w0) + i
            < length (spawned (print ''Screenshot error: cannot identify image file''
                                (after_spawn None 60 w0)))
        \<and> response (scripted [completed (PNG_MAGIC @ to_bytes ''Failed'') ''Failed''])
             w0 None 60 i = Inr result
        \<and> device_refused (scripted [completed (PNG_MAGIC @ to_bytes ''Failed'') ''Failed'']) result
        \<and> (has_refusal_marker
              (stderr_text (scripted [completed (PNG_MAGIC @ to_bytes ''Failed'') ''Failed'']) result)
            \<or> has_refusal_marker
              (combined_text (scripted [completed (PNG_MAGIC @ to_bytes ''Failed'') ''Failed''])
                 result)))"
proof -
  let ?E = "scripted [completed [] '''', completed (to_bytes ''screencap: Failed'') '''']"
  let ?F = "scripted [completed (PNG_MAGIC @ to_bytes ''Failed'') ''Failed'']"
  have g: "get_screenshot ?E None 60 w0 =
     (Inr (create_fallback_screenshot ?E True), after_spawn None 60 (after_spawn None 60 w0))"
    by code_simp
  have s: "is_sensitive (create_fallback_screenshot ?E True)"
    by (simp add: fallback_fields)
  have g': "get_screenshot ?F None 60 w0 =
     (Inr (create_fallback_screenshot ?F False),
      print ''Screenshot error: cannot identify image file'' (after_spawn None 60 w0))"
    by code_simp
  have s': "\<not> is_sensitive (create_fallback_screenshot ?F False)"
    by (simp add: fallback_fields)
  from sensitive_only_on_refusal [OF g] s sensitive_only_on_refusal [OF g'] s' g g'
  show ?thesis by blast
qed

section \<open>C6: at most two process spawns\<close>

text \<open>
  C6: a call spawns one or two processes, each with the screencap command line and the
  given timeout, and never a third; and when the first response is a device refusal or a
  valid capture, it spawns exactly one.
\<close>

theorem at_most_two_spawns:
  "length (spawned (snd (get_screenshot E d t w))) \<le> length (spawned w) + 2
   \<and> (\<exists>k. 1 \<le> k \<and> k \<le> 2
        \<and> spawned (snd (get_screenshot E d t w)) = spawned w @ replicate k (screencap_argv d, t))
   \<and> (\<forall>result. response E w d t 0 = Inr result
         \<and> (device_refused E result \<or> (\<exists>img. valid_capture E result img))
        \<longrightarrow> spawned (snd (get_screenshot E d t w)) = spawned w @ [(screencap_argv d, t)])"
proof -
  let ?c = "(screencap_argv d, t)"
  let ?sp = "spawned (snd (get_screenshot E d t w))"
  from get_screenshot_spawned [of E d t w]
  have bound: "length ?sp \<le> length (spawned w) + 2" by auto
  from get_screenshot_spawned [of E d t w]
  have shape: "\<exists>k. 1 \<le> k \<and> k \<le> 2 \<and> ?sp = spawned w @ replicate k ?c"
  proof
    assume "?sp = spawned w @ [?c]"
    then have "1 \<le> (1::nat) \<and> (1::nat) \<le> 2 \<and> ?sp = spawned w @ replicate 1 ?c" by simp
    then show ?thesis by blast
  next
    assume "?sp = spawned w @ [?c, ?c]"
    then have "1 \<le> (2::nat) \<and> (2::nat) \<le> 2 \<and> ?sp = spawned w @ replicate 2 ?c"
      by (simp add: numeral_2_eq_2)
    then show ?thesis by blast
  qed
  have stop: "?sp = spawned w @ [?c]"
    if r: "response E w d t 0 = Inr result"
      and ok: "device_refused E result \<or> (\<exists>img. valid_capture E result img)" for result
  proof -
    from ok have "\<exists>s. fst (attempt E (get_adb_prefix d) t w) = Return s"
      using attempt_refused [OF r] attempt_valid [OF r] by blast
    then obtain s where "fst (attempt E (get_adb_prefix d) t w) = Return s" ..
    then have "get_screenshot E d t w = (Inr s, after_spawn d t w)"
      by (rule get_screenshot_first_Return)
    then show ?thesis by (simp add: spawned_once)
  qed
  from bound shape stop show ?thesis by blast
qed

text \<open>
  An instance: a valid capture at the first attempt.
\<close>

theorem at_most_two_spawns_witness:
  "length (spawned (snd (get_screenshot (scripted [completed small_png '''']) None 60 w0)))
      \<le> length (spawned w0) + 2
   \<and> response (scripted [completed small_png '''']) w0 None 60 0
        = Inr \<lparr>stdout = Some small_png, stderr = Some []\<rparr>
   \<and> valid_capture (scripted [completed small_png ''''])
        \<lparr>stdout = Some small_png, stderr = Some []\<rparr> (Image_new (3, 2) black)
   \<and> spawned (snd (get_screenshot (scripted [completed small_png '''']) None 60 w0))
        = spawned w0 @ [(screencap_argv None, 60)]"
proof -
  let ?E = "scripted [completed small_png '''']"
  let ?r = "\<lparr>stdout = Some small_png, stderr = Some []\<rparr>"
  have r: "response ?E w0 None 60 0 = Inr ?r"
    by (simp add: response_def scripted_def w0_def completed_def to_bytes_def)
  have v: "valid_capture ?E ?r (Image_new (3, 2) black)"
    by (simp add: valid_capture_def scripted_def stdout_bytes_def small_png_def header_open_def
        PNG_MAGIC_def)
  from at_most_two_spawns [of ?E None 60 w0] r v show ?thesis by blast
qed

section \<open>C7: the placeholder generator\<close>

text \<open>
  C7: the fallback screenshot is a function of the flag alone. For both flags it is 1080
  by 2400, its \<open>is_sensitive\<close> is the flag, and the two results differ in that field
  only. Its data is the base64 text of the PNG file of the all-black image, so with a
  base64 decoder and an image decoder that invert the encoders on it, the data decodes
  to a 1080 by 2400 image whose every pixel is black.
\<close>

theorem fallback_is_black_placeholder:
  assumes "\<forall>bs. b64decode (b64encode E bs) = bs"
    and "Image_open E (Image_save_png E (Image_new (1080, 2400) black))
           = Inr (Image_new (1080, 2400) black)"
  shows "width (create_fallback_screenshot E flag) = 1080
       \<and> height (create_fallback_screenshot E flag) = 2400
       \<and> is_sensitive (create_fallback_screenshot E flag) = flag
       \<and> create_fallback_screenshot E True
           = (create_fallback_screenshot E False)\<lparr>is_sensitive := True\<rparr>
       \<and> (\<exists>img. Image_open E (b64decode (base64_data (create_fallback_screenshot E flag)))
                   = Inr img
              \<and> img_size img = (1080, 2400)
              \<and> (\<forall>x y. pixel img x y = (0, 0, 0)))"
proof -
  have d: "b64decode (base64_data (create_fallback_screenshot E flag))
      = Image_save_png E (Image_new (1080, 2400) black)"
    using assms(1) by (simp add: create_fallback_screenshot_def Let_def)
  have i: "img_size (Image_new (1080, 2400) black) = (1080, 2400)"
    "\<forall>x y. pixel (Image_new (1080, 2400) black) x y = (0, 0, 0)"
    by (simp_all add: Image_new_def black_def)
  from d assms(2) i
  have dec: "\<exists>img. Image_open E (b64decode (base64_data (create_fallback_screenshot E flag)))
                   = Inr img
              \<and> img_size img = (1080, 2400)
              \<and> (\<forall>x y. pixel img x y = (0, 0, 0))"
    by simp
  have eq: "create_fallback_screenshot E True
           = (create_fallback_screenshot E False)\<lparr>is_sensitive := True\<rparr>"
    by (simp add: create_fallback_screenshot_def Let_def)
  from dec eq show ?thesis by (simp add: fallback_fields)
qed

text \<open>
  An instance, with the stand-in codecs.
\<close>

theorem fallback_is_black_placeholder_witness:
  "(\<forall>bs. to_bytes (b64encode (scripted []) bs) = bs)
   \<and> Image_open (scripted []) (Image_save_png (scripted []) (Image_new (1080, 2400) black))
       = Inr (Image_new (1080, 2400) black)
   \<and> width (create_fallback_screenshot (scripted []) True) = 1080
   \<and> height (create_fallback_screenshot (scripted []) True) = 2400
   \<and> is_sensitive (create_fallback_screenshot (scripted []) True) = True
   \<and> (\<exists>img. Image_open (scripted [])
               (to_bytes (base64_data (create_fallback_screenshot (scripted []) True))) = Inr img
          \<and> img_size img = (1080, 2400)
          \<and> (\<forall>x y. pixel img x y = (0, 0, 0)))"
proof -
  have h1: "\<forall>bs. to_bytes (b64encode (scripted []) bs) = bs"
    by (simp add: scripted_def to_bytes_byte_text)
  have h2: "Image_open (scripted []) (Image_save_png (scripted []) (Image_new (1080, 2400) black))
       = Inr (Image_new (1080, 2400) black)"
    by (simp add: scripted_def header_open_def header_save_def Image_new_def PNG_MAGIC_def be16_def)
  from fallback_is_black_placeholder [OF h1 h2, of True] h1 h2 show ?thesis by blast
qed

section \<open>C8: equal responses give equal results\<close>

text \<open>
  C8: two calls with the same device id and timeout, whose transports give the same
  response to the first attempt and the same response to the second, and whose codecs
  are the same, return the same result: the same screenshot record, field by field, or
  the same exception.
\<close>

theorem same_responses_same_result:
  assumes "response E2 w2 d t 0 = response E1 w1 d t 0"
    and "response E2 w2 d t 1 = response E1 w1 d t 1"
    and "decode_ignore E2 = decode_ignore E1" and "Image_open E2 = Image_open E1"
    and "Image_save_png E2 = Image_save_png E1" and "b64encode E2 = b64encode E1"
  shows "fst (get_screenshot E2 d t w2) = fst (get_screenshot E1 d t w1)"
proof -
  have a1: "fst (attempt E2 (get_adb_prefix d) t w2) = fst (attempt E1 (get_adb_prefix d) t w1)"
    using assms(1,3-6) by (rule attempt_fst_cong)
  from assms(2)
  have "response E2 (after_spawn d t w2) d t 0 = response E1 (after_spawn d t w1) d t 0"
    by (simp add: response_second)
  then have a2: "fst (attempt E2 (get_adb_prefix d) t (after_spawn d t w2)) =
      fst (attempt E1 (get_adb_prefix d) t (after_spawn d t w1))"
    using assms(3-6) by (rule attempt_fst_cong)
  have fb: "create_fallback_screenshot E2 False = create_fallback_screenshot E1 False"
    using assms(5,6) by (simp add: create_fallback_screenshot_def)
  show ?thesis
    by (simp add: get_screenshot_unfold a1 a2 fb split: step.split exn.split)
qed

text \<open>
  An instance: two different scripts, read from different positions, that answer alike.
\<close>

theorem same_responses_same_result_witness:
  "response (scripted [Inl (Exn ''busy''), completed [] ''Failed'']) 
       \<lparr>spawned = [([''adb'', ''devices''], 5)], printed = []\<rparr> None 60 0
     = response (scripted [completed [] ''Failed'']) w0 None 60 0
   \<and> response (scripted [Inl (Exn ''busy''), completed [] ''Failed''])
       \<lparr>spawned = [([''adb'', ''devices''], 5)], printed = []\<rparr> None 60 1
     = response (scripted [completed [] ''Failed'']) w0 None 60 1
   \<and> fst (get_screenshot (scripted [Inl (Exn ''busy''), completed [] ''Failed''])
          None 60 \<lparr>spawned = [([''adb'', ''devices''], 5)], printed = []\<rparr>)
     = fst (get_screenshot (scripted [completed [] ''Failed'']) None 60 w0)"
proof -
  let ?E2 = "scripted [Inl (Exn ''busy''), completed [] ''Failed'']"
  let ?E1 = "scripted [completed [] ''Failed'']"
  let ?w2 = "\<lparr>spawned = [([''adb'', ''devices''], 5)], printed = []\<rparr>"
  have r0: "response ?E2 ?w2 None 60 0 = response ?E1 w0 None 60 0"
    by (simp add: response_def scripted_def w0_def)
  have r1: "response ?E2 ?w2 None 60 1 = response ?E1 w0 None 60 1"
    by (simp add: response_def scripted_def w0_def)
  have c: "decode_ignore ?E2 = decode_ignore ?E1" "Image_open ?E2 = Image_open ?E1"
    "Image_save_png ?E2 = Image_save_png ?E1" "b64encode ?E2 = b64encode ?E1"
    by (simp_all add: scripted_def)
  from same_responses_same_result [OF r0 r1 c] r0 r1 show ?thesis by blast
qed

section \<open>C9: the loop never ends with an empty error slot\<close>

text \<open>
  C9: when the loop of two attempts ends without a return or a raise, the
  \<open>last_error\<close> slot holds an \<open>Exception\<close>; so line 89 is never reached, the body
  prints the retry warning and raises that error, and the call prints the error line and
  returns the fallback image that is not sensitive.
\<close>

theorem loop_exit_records_error:
  assumes "attempts E (get_adb_prefix d) t 2 None w = (Exhausted last_error, w1)"
  shows "last_error \<noteq> None
       \<and> (\<exists>m. last_error = Some (Exn m)
            \<and> try_body E (get_adb_prefix d) t w =
                (Inl (Exn m), print (''Screenshot warn: exec-out failed after retry: '' @ m) w1)
            \<and> get_screenshot E d t w =
                (Inr (create_fallback_screenshot E False),
                 print (''Screenshot error: '' @ m)
                   (print (''Screenshot warn: exec-out failed after retry: '' @ m) w1)))"
proof -
  let ?p = "get_adb_prefix d"
  from assms obtain e1 where c1: "fst (attempt E ?p t w) = Continue e1"
    by (cases "fst (attempt E ?p t w)") (simp_all add: attempts_two)
  from assms c1 obtain e2
    where c2: "fst (attempt E ?p t (after_spawn d t w)) = Continue e2"
    by (cases "fst (attempt E ?p t (after_spawn d t w))") (simp_all add: attempts_two)
  from assms c1 c2 have le: "last_error = Some e2"
    and w1: "w1 = after_spawn d t (after_spawn d t w)"
    by (simp_all add: attempts_two)
  from c2 obtain m where m: "e2 = Exn m"
    using attempt_Continue_Exn by blast
  have tb: "try_body E ?p t w =
      (Inl (Exn m), print (''Screenshot warn: exec-out failed after retry: '' @ m) w1)"
    using assms le m by (simp add: try_body_def)
  have gs: "get_screenshot E d t w =
      (Inr (create_fallback_screenshot E False),
       print (''Screenshot error: '' @ m)
         (print (''Screenshot warn: exec-out failed after retry: '' @ m) w1))"
    using tb by (simp add: get_screenshot_def)
  from le m tb gs show ?thesis by simp
qed

text \<open>
  An instance: a timeout, then empty output without a marker.
\<close>

theorem loop_exit_records_error_witness:
  "attempts (scripted [Inl (Exn ''timed out''), completed [] ''''])
       (get_adb_prefix None) 60 2 None w0
     = (Exhausted (Some (Exn ''empty screenshot output'')),
        after_spawn None 60 (after_spawn None 60 w0))
   \<and> Some (Exn ''empty screenshot output'') \<noteq> None
   \<and> (\<exists>m. Some (Exn ''empty screenshot output'') = Some (Exn m)
        \<and> get_screenshot (scripted [Inl (Exn ''timed out''), completed [] '''']) None 60 w0 =
            (Inr (create_fallback_screenshot
                    (scripted [Inl (Exn ''timed out''), completed [] '''']) False),
             print (''Screenshot error: '' @ m)
               (print (''Screenshot warn: exec-out failed after retry: '' @ m)
                  (after_spawn None 60 (after_spawn None 60 w0)))))"
proof -
  let ?E = "scripted [Inl (Exn ''timed out''), completed [] '''']"
  have a: "attempts ?E (get_adb_prefix None) 60 2 None w0
     = (Exhausted (Some (Exn ''empty screenshot output'')),
        after_spawn None 60 (after_spawn None 60 w0))"
    by code_simp
  from loop_exit_records_error [OF a] a show ?thesis by blast
qed

section \<open>C10: the empty device id\<close>

text \<open>
  C10: the empty device id builds the same prefix and command line as no device id, and
  the whole call behaves the same; a non-empty device id builds \<open>adb -s\<close> followed by
  exactly that id, and that is the command line the call spawns.
\<close>

theorem empty_device_id_is_absent:
  "get_adb_prefix (Some []) = get_adb_prefix None
   \<and> screencap_argv (Some []) = [''adb'', ''exec-out'', ''screencap'', ''-p'']
   \<and> screencap_argv None = [''adb'', ''exec-out'', ''screencap'', ''-p'']
   \<and> get_screenshot E (Some []) t w = get_screenshot E None t w
   \<and> (dev \<noteq> [] \<longrightarrow>
        get_adb_prefix (Some dev) = [''adb'', ''-s'', dev]
        \<and> screencap_argv (Some dev) = [''adb'', ''-s'', dev, ''exec-out'', ''screencap'', ''-p'']
        \<and> spawned (snd (get_screenshot E (Some dev) t w)) ! length (spawned w)
            = ([''adb'', ''-s'', dev, ''exec-out'', ''screencap'', ''-p''], t))"
proof -
  have p: "get_adb_prefix (Some []) = get_adb_prefix None"
    by (simp add: get_adb_prefix_def)
  have a: "screencap_argv (Some []) = [''adb'', ''exec-out'', ''screencap'', ''-p'']"
    "screencap_argv None = [''adb'', ''exec-out'', ''screencap'', ''-p'']"
    by (simp_all add: screencap_argv_def get_adb_prefix_def)
  have g: "get_screenshot E (Some []) t w = get_screenshot E None t w"
    by (simp add: get_screenshot_def p)
  have n: "get_adb_prefix (Some dev) = [''adb'', ''-s'', dev]
      \<and> screencap_argv (Some dev) = [''adb'', ''-s'', dev, ''exec-out'', ''screencap'', ''-p'']
      \<and> spawned (snd (get_screenshot E (Some dev) t w)) ! length (spawned w)
            = ([''adb'', ''-s'', dev, ''exec-out'', ''screencap'', ''-p''], t)"
    if "dev \<noteq> []"
  proof -
    from that have q: "get_adb_prefix (Some dev) = [''adb'', ''-s'', dev]"
      by (simp add: get_adb_prefix_def)
    then have c: "screencap_argv (Some dev) =
        [''adb'', ''-s'', dev, ''exec-out'', ''screencap'', ''-p'']"
      by (simp add: screencap_argv_def)
    from get_screenshot_spawned [of E "Some dev" t w]
    have "spawned (snd (get_screenshot E (Some dev) t w)) ! length (spawned w)
        = (screencap_argv (Some dev), t)"
      by (auto simp add: nth_append)
    with q c show ?thesis by simp
  qed
  from p a g n show ?thesis by blast
qed

text \<open>
  An instance: device \<open>emulator-5554\<close>.
\<close>

theorem empty_device_id_is_absent_witness:
  "''emulator-5554'' \<noteq> []
   \<and> get_adb_prefix (Some ''emulator-5554'') = [''adb'', ''-s'', ''emulator-5554'']
   \<and> screencap_argv (Some ''emulator-5554'')
       = [''adb'', ''-s'', ''emulator-5554'', ''exec-out'', ''screencap'', ''-p'']
   \<and> get_screenshot (scripted []) (Some []) 60 w0 = get_screenshot (scripted []) None 60 w0"
proof -
  have h: "''emulator-5554'' \<noteq> []" by simp
  from empty_device_id_is_absent [of "scripted []" 60 w0 "''emulator-5554''"] h
  show ?thesis by blast
qed

end
